theory Spec2Isabelle
  imports Main "HOL-Library.Finite_Map" "HOL-Library.Code_Target_Nat"
begin

section \<open>Data model of event\_message.py\<close>

text \<open>
  JSON values as Python sees them after decoding. Python's \<open>None\<close> is not a constructor:
  a nullable column is an \<open>option\<close>, with \<open>None\<close> for Python's \<open>None\<close>. A JSON object
  is a Python dict, compared by its key/value pairs and not by the order of its fields, so
  it is a finite map: equality of finite maps is the canonical equality of patterns.
\<close>

datatype json = JNum int | JStr string | JArr "json list" | JObj "(string, json) fmap"

text \<open>A wanted message (pattern) is a JSON object.\<close>

type_synonym msg = "(string, json) fmap"

text \<open>
  A datetime is a number of seconds since 1970-01-01 00:00:00, read in the time zone of the
  plugin. Only the order of datetimes is used by the source.
\<close>

type_synonym time = nat

datatype error = KeyError string | ValueError string | PluginError

text \<open>\<open>DBStatus\<close> of \<open>event_plugins.common.status\<close>.\<close>

datatype DBStatus = ALL_RECEIVED | NOT_ALL_RECEIVED

text \<open>The instance \<open>self\<close> of class \<open>EventMessageCRUD\<close>.\<close>

record EventMessageCRUD =
  source_type :: string
  sensor_name :: string

text \<open>
  A row of table \<open>event_plugins\<close>. The column \<open>id\<close> is filled by the store when the row
  is added (autoincrement), and is \<open>None\<close> on an object that was only constructed.
\<close>

record EventMessage =
  id' :: "nat option"
  name :: string
  msg :: msg
  source_type :: string
  frequency :: json
  last_receive :: "json option"
  last_receive_time :: "time option"
  timeout :: time

definition available_frequency :: "json list" where
  "available_frequency = [JStr ''D'', JStr ''M'']"

definition available_source_type :: "string list" where
  "available_source_type = [''base'', ''kafka'']"

text \<open>
  The validators raise \<open>ValueError\<close>; the model keeps the validated key as the payload of
  the error in place of the message text.
\<close>

definition validate_frequency :: "json \<Rightarrow> error + json" where
  "validate_frequency f =
     (if f \<notin> set available_frequency then Inl (ValueError ''frequency'') else Inr f)"

definition validate_source_type :: "string \<Rightarrow> error + string" where
  "validate_source_type st =
     (if st \<notin> set available_source_type then Inl (ValueError ''source_type'') else Inr st)"

text \<open>
  \<open>EventMessage.__init__\<close>: the attributes are assigned in the order msg, name,
  source\_type, frequency, ...; assigning source\_type and frequency runs the validators,
  source\_type first.
\<close>

definition EventMessage_init ::
  "string \<Rightarrow> msg \<Rightarrow> string \<Rightarrow> json \<Rightarrow> json option \<Rightarrow> time option \<Rightarrow> time
     \<Rightarrow> error + EventMessage" where
  "EventMessage_init n m st f lr lrt t =
     (case validate_source_type st of
        Inl e \<Rightarrow> Inl e
      | Inr st' \<Rightarrow>
         (case validate_frequency f of
            Inl e \<Rightarrow> Inl e
          | Inr f' \<Rightarrow>
              Inr \<lparr>id' = None, name = n, msg = m, source_type = st', frequency = f',
                   last_receive = lr, last_receive_time = lrt, timeout = t\<rparr>))"

section \<open>The store and the environment\<close>

text \<open>
  The session: the rows of the table in insertion order, and the next value of the
  autoincrement column. A query is a filter over the rows. Every operation runs in one
  transaction: when it raises, nothing is committed, so a failing operation returns the
  error and no session.
\<close>

record session =
  rows :: "EventMessage list"
  next_id :: nat

definition session_add :: "EventMessage \<Rightarrow> session \<Rightarrow> session" where
  "session_add r s =
     s\<lparr>rows := rows s @ [r\<lparr>id' := Some (next_id s)\<rparr>], next_id := Suc (next_id s)\<rparr>"

text \<open>
  Two things are read from the environment. \<open>now\<close> is what \<open>TimeUtils().get_now()\<close>
  returns; it is one value for the duration of one operation. The second is the code
  behind \<open>factory.plugin_factory(source_type).msg_handler(msg=msg, mtype='wanted').timeout()\<close>,
  which is not part of the source file: it is a parameter \<open>pf\<close> that is given the
  clock reading, the source type and the message, and returns a datetime or raises.
\<close>

type_synonym plugin_factory = "time \<Rightarrow> string \<Rightarrow> msg \<Rightarrow> error + time"

definition get_timeout :: "time \<Rightarrow> plugin_factory \<Rightarrow> EventMessageCRUD \<Rightarrow> msg \<Rightarrow> error + time" where
  "get_timeout now pf self m = pf now (EventMessageCRUD.source_type self) m"

definition get_sensor_messages :: "EventMessageCRUD \<Rightarrow> session \<Rightarrow> EventMessage list" where
  "get_sensor_messages self s = filter (\<lambda>r. name r = sensor_name self) (rows s)"

section \<open>Reconciliation: initialize and update\_msgs\<close>

text \<open>
  The expression \<open>EventMessage(name=self.sensor_name, msg=msg, source_type=self.source_type,
  frequency=msg['frequency'], last_receive=None, last_receive_time=None,
  timeout=self.get_timeout(msg))\<close>, which both \<open>initialize\<close> and \<open>update_msgs\<close> evaluate.
  The arguments are evaluated before the constructor runs: \<open>msg['frequency']\<close> raises
  \<open>KeyError\<close> on a message without that key, then \<open>get_timeout\<close> may raise.
\<close>

definition new_record ::
  "time \<Rightarrow> plugin_factory \<Rightarrow> EventMessageCRUD \<Rightarrow> msg \<Rightarrow> error + EventMessage" where
  "new_record now pf self m =
     (case fmlookup m ''frequency'' of
        None \<Rightarrow> Inl (KeyError ''frequency'')
      | Some f \<Rightarrow>
         (case get_timeout now pf self m of
            Inl e \<Rightarrow> Inl e
          | Inr t \<Rightarrow>
              EventMessage_init (sensor_name self) m (EventMessageCRUD.source_type self) f
                None None t))"

text \<open>
  The loop \<open>for msg in ...: record = EventMessage(...); session.add(record)\<close>, which is
  the else branch of \<open>initialize\<close> and the second loop of \<open>update_msgs\<close>.
\<close>

fun add_msgs ::
  "time \<Rightarrow> plugin_factory \<Rightarrow> EventMessageCRUD \<Rightarrow> msg list \<Rightarrow> session \<Rightarrow> error + session" where
  "add_msgs now pf self [] s = Inr s"
| "add_msgs now pf self (m # ms) s =
     (case new_record now pf self m of
        Inl e \<Rightarrow> Inl e
      | Inr r \<Rightarrow> add_msgs now pf self ms (session_add r s))"

text \<open>
  \<open>update_msgs\<close>: delete the rows of the sensor whose msg is not in \<open>msg_list\<close>; then
  \<open>exist_records\<close>, a lazy query, is read again for each message of the list, after the
  delete and before any row is added. The comparisons of the msg column made by the store
  (\<open>notin_\<close>, \<open>==\<close>) and by Python (\<open>not in\<close>) are the equality of the decoded objects.
\<close>

definition update_msgs ::
  "time \<Rightarrow> plugin_factory \<Rightarrow> EventMessageCRUD \<Rightarrow> msg list \<Rightarrow> session \<Rightarrow> error + session" where
  "update_msgs now pf self msg_list s =
     (let s1 = s\<lparr>rows := filter (\<lambda>r. \<not> (name r = sensor_name self \<and> msg r \<notin> set msg_list))
                              (rows s)\<rparr>;
          new_msgs = filter (\<lambda>m. m \<notin> set (map msg (get_sensor_messages self s1))) msg_list
      in add_msgs now pf self new_msgs s1)"

section \<open>Expiry: reset\_timeout\<close>

text \<open>
  The loop of \<open>reset_timeout\<close> over the rows selected by
  \<open>name == self.sensor_name and timeout < base_time\<close>; the selection is made once, before
  the loop.
\<close>

fun reset_rows ::
  "time \<Rightarrow> plugin_factory \<Rightarrow> EventMessageCRUD \<Rightarrow> time \<Rightarrow> EventMessage list
     \<Rightarrow> error + EventMessage list" where
  "reset_rows now pf self base [] = Inr []"
| "reset_rows now pf self base (r # rs) =
     (if name r = sensor_name self \<and> timeout r < base then
        (case get_timeout now pf self (msg r) of
           Inl e \<Rightarrow> Inl e
         | Inr t \<Rightarrow>
            (case reset_rows now pf self base rs of
               Inl e \<Rightarrow> Inl e
             | Inr rs' \<Rightarrow>
                 Inr (r\<lparr>last_receive_time := None, last_receive := None, timeout := t\<rparr> # rs')))
      else
        (case reset_rows now pf self base rs of
           Inl e \<Rightarrow> Inl e
         | Inr rs' \<Rightarrow> Inr (r # rs')))"

text \<open>\<open>base_time = base_time or TimeUtils().get_now()\<close>: a datetime is never falsy.\<close>

definition reset_timeout ::
  "time \<Rightarrow> plugin_factory \<Rightarrow> EventMessageCRUD \<Rightarrow> time option \<Rightarrow> session \<Rightarrow> error + session" where
  "reset_timeout now pf self base_time s =
     (let base = (case base_time of None \<Rightarrow> now | Some b \<Rightarrow> b) in
      case reset_rows now pf self base (rows s) of
        Inl e \<Rightarrow> Inl e
      | Inr rs \<Rightarrow> Inr (s\<lparr>rows := rs\<rparr>))"

definition initialize ::
  "time \<Rightarrow> plugin_factory \<Rightarrow> EventMessageCRUD \<Rightarrow> msg list \<Rightarrow> time option \<Rightarrow> session
     \<Rightarrow> error + session" where
  "initialize now pf self msg_list dt s =
     (if length (get_sensor_messages self s) > 0 then
        (let dt' = (case dt of None \<Rightarrow> now | Some d \<Rightarrow> d) in
         case update_msgs now pf self msg_list s of
           Inl e \<Rightarrow> Inl e
         | Inr s1 \<Rightarrow> reset_timeout now pf self (Some dt') s1)
      else add_msgs now pf self msg_list s)"

section \<open>Status, queries, arrival and teardown\<close>

text \<open>The loop of \<open>status\<close>, which returns at the first row with an unset field.\<close>

fun status_rows :: "EventMessage list \<Rightarrow> DBStatus" where
  "status_rows [] = ALL_RECEIVED"
| "status_rows (r # rs) =
     (if last_receive r = None \<or> last_receive_time r = None then NOT_ALL_RECEIVED
      else status_rows rs)"

definition status :: "EventMessageCRUD \<Rightarrow> session \<Rightarrow> DBStatus" where
  "status self s = status_rows (filter (\<lambda>r. name r = sensor_name self) (rows s))"

definition get_unreceived_msgs :: "EventMessageCRUD \<Rightarrow> session \<Rightarrow> msg list" where
  "get_unreceived_msgs self s =
     map msg (filter (\<lambda>r. last_receive r = None \<and> last_receive_time r = None)
                (filter (\<lambda>r. name r = sensor_name self) (rows s)))"

text \<open>
  \<open>update_on_receive(match_wanted, receive_msg)\<close>: the received time is read from the
  clock, \<open>TimeUtils().get_now()\<close>; \<open>receive_msg\<close> is any Python value, \<open>None\<close> included.
\<close>

definition update_on_receive ::
  "time \<Rightarrow> EventMessageCRUD \<Rightarrow> msg \<Rightarrow> json option \<Rightarrow> session \<Rightarrow> session" where
  "update_on_receive now self match_wanted receive_msg s =
     s\<lparr>rows := map (\<lambda>r. if name r = sensor_name self \<and> msg r = match_wanted
                         then r\<lparr>last_receive_time := Some now, last_receive := receive_msg\<rparr>
                         else r) (rows s)\<rparr>"

definition delete :: "EventMessageCRUD \<Rightarrow> session \<Rightarrow> session" where
  "delete self s = s\<lparr>rows := filter (\<lambda>r. name r \<noteq> sensor_name self) (rows s)\<rparr>"

text \<open>Python's truth value of a decoded JSON value that is not \<open>None\<close>.\<close>

fun falsy :: "json \<Rightarrow> bool" where
  "falsy (JNum n) = (n = 0)"
| "falsy (JStr x) = (x = [])"
| "falsy (JArr xs) = (xs = [])"
| "falsy (JObj m) = (m = fmempty)"

section \<open>The operation of the spec that takes the caller's time\<close>

text \<open>
  Following the spec's words (section 4.3): \<open>recordArrival(watcherName, matchedPattern,
  payload, now)\<close> updates every record of \<open>watcherName\<close> whose pattern equals
  \<open>matchedPattern\<close>, setting \<open>lastReceivedPayload = payload\<close> and
  \<open>lastReceivedAt = now\<close>, where \<open>now\<close> is supplied by the caller.
\<close>

definition recordArrival :: "string \<Rightarrow> msg \<Rightarrow> json option \<Rightarrow> time \<Rightarrow> session \<Rightarrow> session" where
  "recordArrival watcherName matchedPattern payload now s =
     s\<lparr>rows := map (\<lambda>r. if name r = watcherName \<and> msg r = matchedPattern
                         then r\<lparr>last_receive := payload, last_receive_time := Some now\<rparr>
                         else r) (rows s)\<rparr>"

section \<open>The timeout policy\<close>

text \<open>
  Modelled from the spec: the Timeout Policy, the code behind
  \<open>factory.plugin_factory(source_type).msg_handler(msg=msg, mtype='wanted').timeout()\<close>,
  is not in the source file. The spec (sections 2 and 6) gives
  \<open>computeDeadline(pattern, sourceType, now)\<close>: Daily is the end of the current calendar
  day, 23:59:59; Monthly is the end of the current calendar month at the same time of day.
  The frequency is the pattern's field \<open>frequency\<close>, \<open>'D'\<close> or \<open>'M'\<close>. The spec gives
  no deadline for another frequency; the model raises there.
\<close>

definition end_of_day :: "time \<Rightarrow> time" where
  "end_of_day t = (t div 86400) * 86400 + 86399"

definition leap_year :: "nat \<Rightarrow> bool" where
  "leap_year y = (y mod 4 = 0 \<and> (y mod 100 \<noteq> 0 \<or> y mod 400 = 0))"

definition days_in_month :: "nat \<Rightarrow> nat \<Rightarrow> nat" where
  "days_in_month y m =
     (if m = 2 then (if leap_year y then 29 else 28)
      else if m = 4 \<or> m = 6 \<or> m = 9 \<or> m = 11 then 30 else 31)"

text \<open>
  The last day of the month that holds day \<open>d\<close>, days being counted from 1970-01-01;
  \<open>first\<close> is the first day of month \<open>m\<close> of year \<open>y\<close>, and \<open>first \<le> d\<close>.
\<close>

function last_day_of_month :: "nat \<Rightarrow> nat \<Rightarrow> nat \<Rightarrow> nat \<Rightarrow> nat" where
  "last_day_of_month y m first d =
     (if d < first + days_in_month y m then first + days_in_month y m - 1
      else last_day_of_month (if m = 12 then y + 1 else y) (if m = 12 then 1 else m + 1)
             (first + days_in_month y m) d)"
  by pat_completeness auto
termination
  by (relation "measure (\<lambda>(y, m, first, d). d - first)") (auto simp: days_in_month_def)

definition end_of_month :: "time \<Rightarrow> time" where
  "end_of_month t = last_day_of_month 1970 1 0 (t div 86400) * 86400 + 86399"

definition computeDeadline :: "msg \<Rightarrow> string \<Rightarrow> time \<Rightarrow> error + time" where
  "computeDeadline pattern sourceType now =
     (case fmlookup pattern ''frequency'' of
        None \<Rightarrow> Inl (KeyError ''frequency'')
      | Some f \<Rightarrow>
          if f = JStr ''D'' then Inr (end_of_day now)
          else if f = JStr ''M'' then Inr (end_of_month now)
          else Inl PluginError)"

definition timeout_policy :: plugin_factory where
  "timeout_policy now st m = computeDeadline m st now"

section \<open>Concrete inputs\<close>

definition crud_test :: EventMessageCRUD where
  "crud_test = \<lparr>EventMessageCRUD.source_type = ''kafka'', sensor_name = ''test''\<rparr>"

definition msg_a :: msg where
  "msg_a = fmap_of_list [(''frequency'', JStr ''D''), (''topic'', JStr ''a'')]"

definition msg_b :: msg where
  "msg_b = fmap_of_list [(''frequency'', JStr ''M''), (''topic'', JStr ''b'')]"

text \<open>
  Two awaiting rows of sensor \<open>test\<close>, with the deadlines of 1970-01-01 (end of day and
  end of month), and a satisfied row of another sensor.
\<close>

definition row_a :: EventMessage where
  "row_a = \<lparr>id' = Some 1, name = ''test'', msg = msg_a, source_type = ''kafka'',
            frequency = JStr ''D'', last_receive = None, last_receive_time = None,
            timeout = 86399\<rparr>"

definition row_b :: EventMessage where
  "row_b = \<lparr>id' = Some 2, name = ''test'', msg = msg_b, source_type = ''kafka'',
            frequency = JStr ''M'', last_receive = None, last_receive_time = None,
            timeout = 2678399\<rparr>"

definition row_other :: EventMessage where
  "row_other = \<lparr>id' = Some 3, name = ''other'', msg = msg_a, source_type = ''kafka'',
            frequency = JStr ''D'', last_receive = Some (JNum 7), last_receive_time = Some 5,
            timeout = 10\<rparr>"

definition session_ab :: session where
  "session_ab = \<lparr>rows = [row_a, row_b, row_other], next_id = 4\<rparr>"

text \<open>
  The row that \<open>test_status\<close> builds: the received time is set and the received message
  is not.
\<close>

definition row_half :: EventMessage where
  "row_half = row_b\<lparr>last_receive_time := Some 100\<rparr>"

text \<open>A row whose received message is the number zero.\<close>

definition row_zero :: EventMessage where
  "row_zero = row_b\<lparr>last_receive := Some (JNum 0), last_receive_time := Some 100\<rparr>"

text \<open>Row \<open>row_a\<close> after a message was received at second 50 of 1970-01-01.\<close>

definition row_stale :: EventMessage where
  "row_stale = row_a\<lparr>last_receive := Some (JNum 1), last_receive_time := Some 50\<rparr>"

definition session_stale :: session where
  "session_stale = \<lparr>rows = [row_stale, row_b, row_other], next_id = 4\<rparr>"

section \<open>Validation at construction\<close>

text \<open>
  C7. Constructing an EventMessage with a frequency outside \<open>['D', 'M']\<close> or a source type
  outside \<open>['base', 'kafka']\<close> fails with a ValueError, and no row is produced; with both
  values inside their sets the construction returns the row.
\<close>

theorem EventMessage_init_validates:
  "set available_frequency = {JStr ''D'', JStr ''M''} \<and>
   (f \<notin> set available_frequency \<or> st \<notin> set available_source_type
      \<longrightarrow> (\<exists>k. EventMessage_init n m st f lr lrt t = Inl (ValueError k))) \<and>
   (f \<in> set available_frequency \<and> st \<in> set available_source_type
      \<longrightarrow> EventMessage_init n m st f lr lrt t =
            Inr \<lparr>id' = None, name = n, msg = m, source_type = st, frequency = f,
                 last_receive = lr, last_receive_time = lrt, timeout = t\<rparr>)"
  by (simp add: EventMessage_init_def validate_frequency_def validate_source_type_def
        available_frequency_def)

theorem EventMessage_init_validates_witness:
  "(\<exists>k. EventMessage_init ''test'' msg_a ''kafka'' (JStr ''not_valid'') None None 0
          = Inl (ValueError k)) \<and>
   (\<exists>k. EventMessage_init ''test'' msg_a ''not_available_source'' (JStr ''D'') None None 0
          = Inl (ValueError k)) \<and>
   EventMessage_init ''test'' msg_a ''kafka'' (JStr ''D'') None None 0 =
     Inr \<lparr>id' = None, name = ''test'', msg = msg_a, source_type = ''kafka'',
          frequency = JStr ''D'', last_receive = None, last_receive_time = None, timeout = 0\<rparr>"
  using EventMessage_init_validates [of "JStr ''not_valid''" "''kafka''" "''test''" msg_a None None 0]
    EventMessage_init_validates [of "JStr ''D''" "''not_available_source''" "''test''" msg_a None None 0]
    EventMessage_init_validates [of "JStr ''D''" "''kafka''" "''test''" msg_a None None 0]
  by (simp add: available_frequency_def available_source_type_def)

section \<open>Facts about the operations\<close>

lemma status_rows_all:
  "(status_rows rs = ALL_RECEIVED) =
     (\<forall>r\<in>set rs. last_receive r \<noteq> None \<and> last_receive_time r \<noteq> None)"
  by (induction rs) auto

lemma status_rows_append:
  "status_rows (xs @ ys) =
     (if status_rows xs = NOT_ALL_RECEIVED then NOT_ALL_RECEIVED else status_rows ys)"
  by (induction xs) auto

lemma status_rows_paired:
  "\<forall>r\<in>set rs. (last_receive r = None) = (last_receive_time r = None)
     \<Longrightarrow> (status_rows rs = ALL_RECEIVED)
          = (map msg (filter (\<lambda>r. last_receive r = None \<and> last_receive_time r = None) rs) = [])"
  by (induction rs) auto

lemma new_record_fields:
  "new_record now pf self m = Inr r \<Longrightarrow>
     id' r = None \<and> name r = sensor_name self \<and> msg r = m \<and> last_receive r = None \<and>
     last_receive_time r = None \<and> get_timeout now pf self m = Inr (timeout r) \<and>
     fmlookup m ''frequency'' = Some (frequency r) \<and>
     source_type r = EventMessageCRUD.source_type self"
  by (auto simp: new_record_def EventMessage_init_def validate_frequency_def
        validate_source_type_def split: option.splits sum.splits if_splits)

lemma add_msgs_rows:
  "add_msgs now pf self ms s = Inr s' \<Longrightarrow>
     \<exists>new. rows s' = rows s @ new \<and> map msg new = ms \<and>
       (\<forall>r\<in>set new. name r = sensor_name self \<and> last_receive r = None \<and>
           last_receive_time r = None \<and> get_timeout now pf self (msg r) = Inr (timeout r))"
proof (induction ms arbitrary: s)
  case Nil
  then show ?case by simp
next
  case (Cons m ms)
  from Cons.prems obtain r where r: "new_record now pf self m = Inr r"
    and rest: "add_msgs now pf self ms (session_add r s) = Inr s'"
    by (auto split: sum.splits)
  from Cons.IH [OF rest] obtain new where new: "rows s' = rows (session_add r s) @ new"
    "map msg new = ms"
    "\<forall>r\<in>set new. name r = sensor_name self \<and> last_receive r = None \<and>
           last_receive_time r = None \<and> get_timeout now pf self (msg r) = Inr (timeout r)"
    by blast
  let ?r = "r\<lparr>id' := Some (next_id s)\<rparr>"
  have "rows s' = rows s @ (?r # new)" using new(1) by (simp add: session_add_def)
  moreover have "map msg (?r # new) = m # ms" using new(2) new_record_fields [OF r] by simp
  moreover have "\<forall>x\<in>set (?r # new). name x = sensor_name self \<and> last_receive x = None \<and>
           last_receive_time x = None \<and> get_timeout now pf self (msg x) = Inr (timeout x)"
    using new(3) new_record_fields [OF r] by simp
  ultimately show ?case by (intro exI [of _ "?r # new"] conjI)
qed

lemma reset_rows_others:
  "reset_rows now pf self base rs = Inr rs' \<Longrightarrow>
     filter (\<lambda>r. name r \<noteq> sensor_name self) rs' = filter (\<lambda>r. name r \<noteq> sensor_name self) rs"
  by (induction rs arbitrary: rs') (auto split: if_splits sum.splits)

lemma reset_timeout_others:
  "reset_timeout now pf self base_time s = Inr s' \<Longrightarrow>
     filter (\<lambda>r. name r \<noteq> sensor_name self) (rows s')
       = filter (\<lambda>r. name r \<noteq> sensor_name self) (rows s)"
  by (auto simp: reset_timeout_def Let_def split: sum.splits dest: reset_rows_others)

lemma add_msgs_others:
  "add_msgs now pf self ms s = Inr s' \<Longrightarrow>
     filter (\<lambda>r. name r \<noteq> sensor_name self) (rows s')
       = filter (\<lambda>r. name r \<noteq> sensor_name self) (rows s)"
  by (drule add_msgs_rows) (auto simp: filter_empty_conv)

lemma update_msgs_others:
  "update_msgs now pf self msg_list s = Inr s' \<Longrightarrow>
     filter (\<lambda>r. name r \<noteq> sensor_name self) (rows s')
       = filter (\<lambda>r. name r \<noteq> sensor_name self) (rows s)"
  unfolding update_msgs_def Let_def
  by (drule add_msgs_others) (auto intro: filter_cong)

lemma initialize_others:
  assumes init: "initialize now pf self msg_list dt s = Inr s'"
  shows "filter (\<lambda>r. name r \<noteq> sensor_name self) (rows s')
       = filter (\<lambda>r. name r \<noteq> sensor_name self) (rows s)"
proof (cases "length (get_sensor_messages self s) > 0")
  case True
  with init obtain s1 b where u: "update_msgs now pf self msg_list s = Inr s1"
    and r: "reset_timeout now pf self (Some b) s1 = Inr s'"
    by (auto simp: initialize_def Let_def split: sum.splits)
  show ?thesis using update_msgs_others [OF u] reset_timeout_others [OF r] by simp
next
  case False
  with init have "add_msgs now pf self msg_list s = Inr s'" by (simp add: initialize_def)
  then show ?thesis by (rule add_msgs_others)
qed

lemma receive_rows_others:
  "filter (\<lambda>r. name r \<noteq> w)
     (map (\<lambda>r. if name r = w \<and> msg r = m
                then r\<lparr>last_receive_time := Some now, last_receive := p\<rparr> else r) rs)
     = filter (\<lambda>r. name r \<noteq> w) rs"
  by (induction rs) auto

lemma reset_rows_rel:
  "reset_rows now pf self base rs = Inr rs' \<Longrightarrow>
     list_all2 (\<lambda>r r'. if name r = sensor_name self \<and> timeout r < base
                then \<exists>t. get_timeout now pf self (msg r) = Inr t \<and>
                       r' = r\<lparr>last_receive_time := None, last_receive := None, timeout := t\<rparr>
                else r' = r) rs rs'"
  (is "_ \<Longrightarrow> list_all2 ?R rs rs'")
proof (induction rs arbitrary: rs')
  case Nil
  then show ?case by simp
next
  case (Cons r rs)
  show ?case
  proof (cases "name r = sensor_name self \<and> timeout r < base")
    case True
    with Cons.prems obtain t rs'' where t: "get_timeout now pf self (msg r) = Inr t"
      and rec: "reset_rows now pf self base rs = Inr rs''"
      and eq: "rs' = r\<lparr>last_receive_time := None, last_receive := None, timeout := t\<rparr> # rs''"
      by (auto split: sum.splits)
    have hd: "?R r (r\<lparr>last_receive_time := None, last_receive := None, timeout := t\<rparr>)"
      using True t by simp
    show ?thesis unfolding eq by (rule list_all2_Cons [THEN iffD2, OF conjI [OF hd Cons.IH [OF rec]]])
  next
    case False
    with Cons.prems obtain rs'' where rec: "reset_rows now pf self base rs = Inr rs''"
      and eq: "rs' = r # rs''"
      by (auto split: sum.splits)
    have hd: "?R r r" using False by auto
    show ?thesis unfolding eq by (rule list_all2_Cons [THEN iffD2, OF conjI [OF hd Cons.IH [OF rec]]])
  qed
qed

lemma reset_rows_nth:
  assumes "reset_rows now pf self base rs = Inr rs'" and "i < length rs"
  shows "length rs' = length rs"
    and "name (rs ! i) = sensor_name self \<and> timeout (rs ! i) < base \<Longrightarrow>
           \<exists>t. get_timeout now pf self (msg (rs ! i)) = Inr t \<and>
             rs' ! i = (rs ! i)\<lparr>last_receive_time := None, last_receive := None, timeout := t\<rparr>"
    and "\<not> (name (rs ! i) = sensor_name self \<and> timeout (rs ! i) < base) \<Longrightarrow> rs' ! i = rs ! i"
proof -
  note rel = reset_rows_rel [OF assms(1)]
  show "length rs' = length rs" using rel by (simp add: list_all2_lengthD)
  note at = list_all2_nthD [OF rel assms(2)]
  show "\<exists>t. get_timeout now pf self (msg (rs ! i)) = Inr t \<and>
             rs' ! i = (rs ! i)\<lparr>last_receive_time := None, last_receive := None, timeout := t\<rparr>"
    if "name (rs ! i) = sensor_name self \<and> timeout (rs ! i) < base"
    using at that by simp
  show "rs' ! i = rs ! i"
    if "\<not> (name (rs ! i) = sensor_name self \<and> timeout (rs ! i) < base)"
    using at that by simp
qed

lemma reset_rows_msg_name:
  "reset_rows now pf self base rs = Inr rs' \<Longrightarrow>
     map msg rs' = map msg rs \<and> map name rs' = map name rs"
  by (induction rs arbitrary: rs') (auto split: if_splits sum.splits)

lemma reset_rows_total:
  "\<forall>r\<in>set rs. name r = sensor_name self \<and> timeout r < base
       \<longrightarrow> (\<exists>t. get_timeout now pf self (msg r) = Inr t)
     \<Longrightarrow> \<exists>rs'. reset_rows now pf self base rs = Inr rs'"
  by (induction rs) auto

lemma reset_rows_idem:
  "reset_rows now pf self base rs = Inr rs' \<Longrightarrow> reset_rows now pf self base rs' = Inr rs'"
  by (induction rs arbitrary: rs') (auto split: if_splits sum.splits)

lemma reset_rows_fix:
  "\<forall>r\<in>set rs. name r = sensor_name self \<and> timeout r < base
       \<longrightarrow> last_receive r = None \<and> last_receive_time r = None \<and>
           get_timeout now pf self (msg r) = Inr (timeout r)
     \<Longrightarrow> reset_rows now pf self base rs = Inr rs"
  by (induction rs) auto

section \<open>Facts about the timeout policy\<close>

lemma last_day_of_month_ge: "first \<le> d \<Longrightarrow> d \<le> last_day_of_month y m first d"
proof (induction y m first d rule: last_day_of_month.induct)
  case (1 y m first d)
  show ?case
  proof (cases "d < first + days_in_month y m")
    case True
    then show ?thesis by (subst last_day_of_month.simps) simp
  next
    case False
    with 1 show ?thesis by (subst last_day_of_month.simps) simp
  qed
qed

lemma end_of_day_ge: "t \<le> end_of_day t"
proof -
  have "t = (t div 86400) * 86400 + t mod 86400" by simp
  moreover have "t mod 86400 < 86400" by simp
  ultimately show ?thesis unfolding end_of_day_def by linarith
qed

lemma end_of_month_ge: "end_of_day t \<le> end_of_month t"
  using last_day_of_month_ge [of 0 "t div 86400" 1970 1]
  by (simp add: end_of_day_def end_of_month_def)

lemma timeout_policy_ge: "timeout_policy now st m = Inr t \<Longrightarrow> now \<le> t"
  using end_of_day_ge [of now] end_of_month_ge [of now]
  by (auto simp: timeout_policy_def computeDeadline_def split: option.splits if_splits)

lemma timeout_policy_total:
  "fmlookup m ''frequency'' = Some (JStr ''D'') \<or> fmlookup m ''frequency'' = Some (JStr ''M'')
     \<Longrightarrow> \<exists>t. timeout_policy now st m = Inr t"
  by (auto simp: timeout_policy_def computeDeadline_def)

lemma reset_timeout_rows:
  "reset_timeout now pf self base_time s = Inr s' \<Longrightarrow>
     reset_rows now pf self (case base_time of None \<Rightarrow> now | Some b \<Rightarrow> b) (rows s)
       = Inr (rows s') \<and> next_id s' = next_id s"
  by (auto simp: reset_timeout_def Let_def split: sum.splits)

lemma new_record_total:
  assumes "EventMessageCRUD.source_type self \<in> set available_source_type"
    and "fmlookup m ''frequency'' = Some f" and "f \<in> set available_frequency"
    and "pf now (EventMessageCRUD.source_type self) m = Inr t"
  shows "\<exists>r. new_record now pf self m = Inr r"
  using assms
  by (simp add: new_record_def get_timeout_def EventMessage_init_def validate_frequency_def
        validate_source_type_def)

lemma add_msgs_total:
  assumes "EventMessageCRUD.source_type self \<in> set available_source_type"
    and "\<forall>m\<in>set ms. \<exists>f\<in>set available_frequency. fmlookup m ''frequency'' = Some f"
    and "\<forall>m\<in>set ms. \<exists>t. pf now (EventMessageCRUD.source_type self) m = Inr t"
  shows "\<exists>s'. add_msgs now pf self ms s = Inr s'"
  using assms(2,3)
proof (induction ms arbitrary: s)
  case Nil
  then show ?case by simp
next
  case (Cons m ms)
  from Cons.prems obtain f t where "fmlookup m ''frequency'' = Some f"
    "f \<in> set available_frequency" "pf now (EventMessageCRUD.source_type self) m = Inr t"
    by auto
  from new_record_total [where pf = pf and now = now, OF assms(1) this] obtain r where r: "new_record now pf self m = Inr r"
    by blast
  from Cons.prems have "\<exists>s'. add_msgs now pf self ms (session_add r s) = Inr s'"
    by (intro Cons.IH) simp_all
  with r show ?case by simp
qed

lemma reset_rows_sensor_msgs:
  "reset_rows now pf self base rs = Inr rs' \<Longrightarrow>
     map msg (filter (\<lambda>r. name r = w) rs') = map msg (filter (\<lambda>r. name r = w) rs)"
  by (induction rs arbitrary: rs') (auto split: if_splits sum.splits)

lemma reset_timeout_sensor_msgs:
  "reset_timeout now pf self base_time s = Inr s' \<Longrightarrow>
     map msg (get_sensor_messages self s') = map msg (get_sensor_messages self s)"
  unfolding get_sensor_messages_def
  by (drule reset_timeout_rows) (auto dest: reset_rows_sensor_msgs)

lemma add_msgs_sensor_msgs:
  assumes "add_msgs now pf self ms s = Inr s'"
  shows "map msg (get_sensor_messages self s') = map msg (get_sensor_messages self s) @ ms"
proof -
  from add_msgs_rows [OF assms] obtain new where new: "rows s' = rows s @ new"
    "map msg new = ms" "\<forall>r\<in>set new. name r = sensor_name self"
    by blast
  from new(3) have "filter (\<lambda>r. name r = sensor_name self) new = new"
    by (simp add: filter_id_conv)
  with new(1,2) show ?thesis by (simp add: get_sensor_messages_def)
qed

lemma update_msgs_patterns:
  assumes "update_msgs now pf self msg_list s = Inr s'"
  shows "set (map msg (get_sensor_messages self s')) = set msg_list"
proof -
  let ?s1 = "s\<lparr>rows := filter (\<lambda>r. \<not> (name r = sensor_name self \<and> msg r \<notin> set msg_list))
                              (rows s)\<rparr>"
  let ?kept = "map msg (get_sensor_messages self ?s1)"
  let ?new = "filter (\<lambda>m. m \<notin> set ?kept) msg_list"
  from assms have a: "add_msgs now pf self ?new ?s1 = Inr s'"
    by (simp add: update_msgs_def Let_def)
  have sub: "set ?kept \<subseteq> set msg_list"
    by (auto simp: get_sensor_messages_def)
  from add_msgs_sensor_msgs [OF a]
  have "set (map msg (get_sensor_messages self s')) = set ?kept \<union> set ?new"
    by simp
  also have "\<dots> = set msg_list" using sub by auto
  finally show ?thesis .
qed

lemma initialize_patterns_lemma:
  assumes "initialize now pf self msg_list dt s = Inr s'"
  shows "set (map msg (get_sensor_messages self s')) = set msg_list"
proof (cases "length (get_sensor_messages self s) > 0")
  case True
  with assms obtain s1 b where u: "update_msgs now pf self msg_list s = Inr s1"
    and r: "reset_timeout now pf self (Some b) s1 = Inr s'"
    by (auto simp: initialize_def Let_def split: sum.splits)
  show ?thesis using update_msgs_patterns [OF u] reset_timeout_sensor_msgs [OF r] by simp
next
  case False
  with assms have a: "add_msgs now pf self msg_list s = Inr s'" by (simp add: initialize_def)
  from False have "get_sensor_messages self s = []" by simp
  with add_msgs_sensor_msgs [OF a] show ?thesis by simp
qed

lemma update_msgs_total:
  assumes "EventMessageCRUD.source_type self \<in> set available_source_type"
    and "\<forall>m\<in>set msg_list. \<exists>f\<in>set available_frequency. fmlookup m ''frequency'' = Some f"
    and "\<forall>m\<in>set msg_list. \<exists>t. pf now (EventMessageCRUD.source_type self) m = Inr t"
  shows "\<exists>s'. update_msgs now pf self msg_list s = Inr s'"
  unfolding update_msgs_def Let_def
  using assms(2,3) by (intro add_msgs_total [where pf = pf and now = now, OF assms(1)]) simp_all

lemma reset_timeout_total:
  assumes "\<forall>r\<in>set (get_sensor_messages self s).
              \<exists>t. pf now (EventMessageCRUD.source_type self) (msg r) = Inr t"
  shows "\<exists>s'. reset_timeout now pf self base_time s = Inr s'"
proof -
  have "\<forall>r\<in>set (rows s). name r = sensor_name self \<and>
            timeout r < (case base_time of None \<Rightarrow> now | Some b \<Rightarrow> b)
       \<longrightarrow> (\<exists>t. get_timeout now pf self (msg r) = Inr t)"
    using assms by (auto simp: get_sensor_messages_def get_timeout_def)
  from reset_rows_total [where pf = pf and now = now, OF this] obtain rs'
    where "reset_rows now pf self (case base_time of None \<Rightarrow> now | Some b \<Rightarrow> b) (rows s)
             = Inr rs'" by blast
  then show ?thesis by (simp add: reset_timeout_def)
qed

lemma initialize_total:
  assumes st: "EventMessageCRUD.source_type self \<in> set available_source_type"
    and fr: "\<forall>m\<in>set msg_list. \<exists>f\<in>set available_frequency. fmlookup m ''frequency'' = Some f"
    and po: "\<forall>m\<in>set msg_list. \<exists>t. pf now (EventMessageCRUD.source_type self) m = Inr t"
  shows "\<exists>s'. initialize now pf self msg_list dt s = Inr s'"
proof (cases "length (get_sensor_messages self s) > 0")
  case True
  from update_msgs_total [where pf = pf and now = now, OF st fr po] obtain s1
    where u: "update_msgs now pf self msg_list s = Inr s1" by blast
  have "\<forall>r\<in>set (get_sensor_messages self s1).
              \<exists>t. pf now (EventMessageCRUD.source_type self) (msg r) = Inr t"
  proof
    fix r assume "r \<in> set (get_sensor_messages self s1)"
    then have "msg r \<in> set (map msg (get_sensor_messages self s1))" by simp
    with update_msgs_patterns [OF u] have "msg r \<in> set msg_list" by simp
    with po show "\<exists>t. pf now (EventMessageCRUD.source_type self) (msg r) = Inr t" by blast
  qed
  from reset_timeout_total [where pf = pf and now = now, OF this] obtain s'
    where "reset_timeout now pf self (Some (case dt of None \<Rightarrow> now | Some d \<Rightarrow> d)) s1
             = Inr s'" by blast
  with True u show ?thesis by (simp add: initialize_def Let_def)
next
  case False
  with add_msgs_total [where pf = pf and now = now, OF st fr po] show ?thesis by (simp add: initialize_def)
qed

lemma update_msgs_fix:
  assumes "set (map msg (get_sensor_messages self s)) = set msg_list"
  shows "update_msgs now pf self msg_list s = Inr s"
proof -
  have keep: "filter (\<lambda>r. \<not> (name r = sensor_name self \<and> msg r \<notin> set msg_list)) (rows s)
                = rows s"
    using assms by (auto simp: filter_id_conv get_sensor_messages_def)
  have none: "filter (\<lambda>m. m \<notin> set (map msg (get_sensor_messages self s))) msg_list = []"
    using assms by (simp add: filter_empty_conv)
  have same: "s\<lparr>rows := rows s\<rparr> = s" by simp
  show ?thesis
    unfolding update_msgs_def Let_def keep same none by simp
qed

lemma initialize_reset_fix:
  assumes "initialize now pf self msg_list dt s = Inr s1"
  shows "reset_rows now pf self (case dt of None \<Rightarrow> now | Some d \<Rightarrow> d) (rows s1)
           = Inr (rows s1)"
proof (cases "length (get_sensor_messages self s) > 0")
  case True
  with assms obtain s0 where "reset_timeout now pf self
      (Some (case dt of None \<Rightarrow> now | Some d \<Rightarrow> d)) s0 = Inr s1"
    by (auto simp: initialize_def Let_def split: sum.splits)
  from reset_timeout_rows [OF this]
  have "reset_rows now pf self (case dt of None \<Rightarrow> now | Some d \<Rightarrow> d) (rows s0) = Inr (rows s1)"
    by simp
  then show ?thesis by (rule reset_rows_idem)
next
  case False
  with assms have a: "add_msgs now pf self msg_list s = Inr s1" by (simp add: initialize_def)
  from False have none: "\<forall>r\<in>set (rows s). name r \<noteq> sensor_name self"
    by (simp add: get_sensor_messages_def filter_empty_conv)
  from add_msgs_rows [OF a] obtain new where new: "rows s1 = rows s @ new"
    "\<forall>r\<in>set new. name r = sensor_name self \<and> last_receive r = None \<and>
           last_receive_time r = None \<and> get_timeout now pf self (msg r) = Inr (timeout r)"
    by blast
  have "\<forall>r\<in>set (rows s1). name r = sensor_name self \<and>
          timeout r < (case dt of None \<Rightarrow> now | Some d \<Rightarrow> d)
       \<longrightarrow> last_receive r = None \<and> last_receive_time r = None \<and>
           get_timeout now pf self (msg r) = Inr (timeout r)"
    using none new by auto
  then show ?thesis by (rule reset_rows_fix)
qed

section \<open>Reconciliation\<close>

text \<open>
  C1. For a list of patterns that is well formed (the source type of the instance is in
  \<open>available_source_type\<close>, every pattern has a frequency in \<open>available_frequency\<close>, and
  the timeout policy returns a deadline for every pattern), \<open>initialize\<close> completes; and
  whenever it completes, the set of the patterns of the sensor's rows is the set of the
  patterns of the list, whatever rows there were before.
\<close>

theorem initialize_patterns:
  "(EventMessageCRUD.source_type self \<in> set available_source_type \<and>
    (\<forall>m\<in>set msg_list. \<exists>f\<in>set available_frequency. fmlookup m ''frequency'' = Some f) \<and>
    (\<forall>m\<in>set msg_list. \<exists>t. pf now (EventMessageCRUD.source_type self) m = Inr t)
      \<longrightarrow> (\<exists>s'. initialize now pf self msg_list dt s = Inr s')) \<and>
   (initialize now pf self msg_list dt s = Inr s'
      \<longrightarrow> set (map msg (get_sensor_messages self s')) = set msg_list)"
proof (intro conjI impI)
  assume wf: "EventMessageCRUD.source_type self \<in> set available_source_type \<and>
    (\<forall>m\<in>set msg_list. \<exists>f\<in>set available_frequency. fmlookup m ''frequency'' = Some f) \<and>
    (\<forall>m\<in>set msg_list. \<exists>t. pf now (EventMessageCRUD.source_type self) m = Inr t)"
  show "\<exists>s'. initialize now pf self msg_list dt s = Inr s'"
    by (rule initialize_total [where pf = pf and now = now, OF conjunct1 [OF wf]
          conjunct1 [OF conjunct2 [OF wf]] conjunct2 [OF conjunct2 [OF wf]]])
next
  assume "initialize now pf self msg_list dt s = Inr s'"
  then show "set (map msg (get_sensor_messages self s')) = set msg_list"
    by (rule initialize_patterns_lemma)
qed

theorem initialize_patterns_witness:
  "(\<exists>s'. initialize 5 timeout_policy crud_test [msg_b] None
            \<lparr>rows = [row_a, row_other], next_id = 4\<rparr> = Inr s') \<and>
   initialize 5 timeout_policy crud_test [msg_b] None \<lparr>rows = [row_a, row_other], next_id = 4\<rparr>
     = Inr \<lparr>rows = [row_other, row_b\<lparr>id' := Some 4\<rparr>], next_id = 5\<rparr> \<and>
   map msg (get_sensor_messages crud_test \<lparr>rows = [row_a, row_other], next_id = 4\<rparr>) = [msg_a] \<and>
   set (map msg (get_sensor_messages crud_test
                   \<lparr>rows = [row_other, row_b\<lparr>id' := Some 4\<rparr>], next_id = 5\<rparr>)) = set [msg_b]"
proof -
  let ?s = "\<lparr>rows = [row_a, row_other], next_id = 4\<rparr>"
  let ?s' = "\<lparr>rows = [row_other, row_b\<lparr>id' := Some 4\<rparr>], next_id = 5\<rparr>"
  note t = initialize_patterns [where now = 5 and pf = timeout_policy and self = crud_test
      and msg_list = "[msg_b]" and dt = None and s = ?s and s' = ?s']
  have st: "EventMessageCRUD.source_type crud_test \<in> set available_source_type"
    by code_simp
  have fr: "\<forall>m\<in>set [msg_b]. \<exists>f\<in>set available_frequency. fmlookup m ''frequency'' = Some f"
    by code_simp
  have "timeout_policy 5 (EventMessageCRUD.source_type crud_test) msg_b = Inr 2678399"
    by code_simp
  then have po: "\<forall>m\<in>set [msg_b].
      \<exists>t. timeout_policy 5 (EventMessageCRUD.source_type crud_test) m = Inr t"
    by simp
  note tot = mp [OF conjunct1 [OF t] conjI [OF st conjI [OF fr po]]]
  have ok: "initialize 5 timeout_policy crud_test [msg_b] None ?s = Inr ?s'"
    by code_simp
  note pat = mp [OF conjunct2 [OF t] ok]
  have before: "map msg (get_sensor_messages crud_test ?s) = [msg_a]"
    by code_simp
  show ?thesis
    by (intro conjI) (fact tot, fact ok, fact before, fact pat)
qed

text \<open>
  C2. When \<open>initialize\<close> has completed, calling it again with the same patterns and the
  same time, at the same reading of the clock, completes and leaves the session as it is:
  the same rows, with the same received fields and the same deadlines.
\<close>

theorem initialize_idempotent:
  assumes "initialize now pf self msg_list dt s = Inr s1"
  shows "initialize now pf self msg_list dt s1 = Inr s1"
proof -
  let ?base = "case dt of None \<Rightarrow> now | Some d \<Rightarrow> d"
  note pat = initialize_patterns_lemma [OF assms]
  note fx = initialize_reset_fix [OF assms]
  show ?thesis
  proof (cases "length (get_sensor_messages self s1) > 0")
    case True
    have u: "update_msgs now pf self msg_list s1 = Inr s1"
      using pat by (rule update_msgs_fix)
    have "reset_timeout now pf self (Some ?base) s1 = Inr s1"
      using fx by (simp add: reset_timeout_def)
    with True u show ?thesis by (simp add: initialize_def Let_def)
  next
    case False
    with pat have "msg_list = []" by simp
    with False show ?thesis by (simp add: initialize_def)
  qed
qed

theorem initialize_idempotent_witness:
  "initialize 100000 timeout_policy crud_test [msg_a, msg_b] (Some 100000) session_stale
     = Inr \<lparr>rows = [row_a\<lparr>timeout := 172799\<rparr>, row_b, row_other], next_id = 4\<rparr> \<and>
   initialize 100000 timeout_policy crud_test [msg_a, msg_b] (Some 100000)
     \<lparr>rows = [row_a\<lparr>timeout := 172799\<rparr>, row_b, row_other], next_id = 4\<rparr>
     = Inr \<lparr>rows = [row_a\<lparr>timeout := 172799\<rparr>, row_b, row_other], next_id = 4\<rparr> \<and>
   initialize 5 timeout_policy crud_test [msg_a, msg_b] None \<lparr>rows = [row_other], next_id = 1\<rparr>
     = Inr \<lparr>rows = [row_other, row_a, row_b], next_id = 3\<rparr> \<and>
   initialize 5 timeout_policy crud_test [msg_a, msg_b] None
     \<lparr>rows = [row_other, row_a, row_b], next_id = 3\<rparr>
     = Inr \<lparr>rows = [row_other, row_a, row_b], next_id = 3\<rparr>"
proof -
  have a: "initialize 100000 timeout_policy crud_test [msg_a, msg_b] (Some 100000) session_stale
     = Inr \<lparr>rows = [row_a\<lparr>timeout := 172799\<rparr>, row_b, row_other], next_id = 4\<rparr>"
    by code_simp
  have b: "initialize 5 timeout_policy crud_test [msg_a, msg_b] None
      \<lparr>rows = [row_other], next_id = 1\<rparr>
     = Inr \<lparr>rows = [row_other, row_a, row_b], next_id = 3\<rparr>"
    by code_simp
  show ?thesis
    by (intro conjI) (fact a, fact initialize_idempotent [OF a], fact b,
      fact initialize_idempotent [OF b])
qed

section \<open>Status and the unreceived messages\<close>

text \<open>
  C4, as stated: \<open>status\<close> returns \<open>ALL_RECEIVED\<close> exactly when \<open>get_unreceived_msgs\<close>
  returns the empty list. It fails on the row of \<open>test_status\<close> whose received time is set
  and whose received message is not: \<open>status\<close> tests the two fields with \<open>or\<close>,
  \<open>get_unreceived_msgs\<close> with \<open>and\<close>.
\<close>

theorem status_unreceived_counterexample:
  "\<not> ((status crud_test \<lparr>rows = [row_half], next_id = 3\<rparr> = ALL_RECEIVED)
        = (get_unreceived_msgs crud_test \<lparr>rows = [row_half], next_id = 3\<rparr> = []))"
  by code_simp

text \<open>
  C4, amended: \<open>ALL_RECEIVED\<close> always gives an empty list of unreceived messages; the
  two are equivalent when every row of the sensor has its two received fields set together
  or unset together; a sensor without rows has status \<open>ALL_RECEIVED\<close> and no unreceived
  message.
\<close>

theorem status_iff_unreceived_paired:
  "(status self s = ALL_RECEIVED \<longrightarrow> get_unreceived_msgs self s = []) \<and>
   ((\<forall>r\<in>set (get_sensor_messages self s). (last_receive r = None) = (last_receive_time r = None))
      \<longrightarrow> (status self s = ALL_RECEIVED) = (get_unreceived_msgs self s = [])) \<and>
   (get_sensor_messages self s = []
      \<longrightarrow> status self s = ALL_RECEIVED \<and> get_unreceived_msgs self s = [])"
proof -
  have a: "status self s = ALL_RECEIVED \<longrightarrow> get_unreceived_msgs self s = []"
    unfolding status_def get_unreceived_msgs_def
    by (simp add: status_rows_all filter_empty_conv)
  have b: "(\<forall>r\<in>set (get_sensor_messages self s).
              (last_receive r = None) = (last_receive_time r = None))
      \<longrightarrow> (status self s = ALL_RECEIVED) = (get_unreceived_msgs self s = [])"
    unfolding status_def get_unreceived_msgs_def get_sensor_messages_def
    by (rule impI) (rule status_rows_paired)
  have c: "get_sensor_messages self s = []
      \<longrightarrow> status self s = ALL_RECEIVED \<and> get_unreceived_msgs self s = []"
    unfolding status_def get_unreceived_msgs_def get_sensor_messages_def
    by simp
  show ?thesis by (rule conjI [OF a conjI [OF b c]])
qed

theorem status_iff_unreceived_paired_witness:
  "(status crud_test session_ab = ALL_RECEIVED)
     = (get_unreceived_msgs crud_test session_ab = []) \<and>
   status crud_test session_ab = NOT_ALL_RECEIVED \<and>
   get_unreceived_msgs crud_test session_ab = [msg_a, msg_b] \<and>
   get_sensor_messages crud_test \<lparr>rows = [row_other], next_id = 4\<rparr> = [] \<and>
   status crud_test \<lparr>rows = [row_other], next_id = 4\<rparr> = ALL_RECEIVED \<and>
   get_unreceived_msgs crud_test \<lparr>rows = [row_other], next_id = 4\<rparr> = []"
proof -
  note t1 = status_iff_unreceived_paired [of crud_test session_ab]
  note t2 = status_iff_unreceived_paired [of crud_test "\<lparr>rows = [row_other], next_id = 4\<rparr>"]
  have p: "\<forall>r\<in>set (get_sensor_messages crud_test session_ab).
      (last_receive r = None) = (last_receive_time r = None)"
    by code_simp
  have q: "(status crud_test session_ab = ALL_RECEIVED)
     = (get_unreceived_msgs crud_test session_ab = [])"
    by (rule mp [OF conjunct1 [OF conjunct2 [OF t1]] p])
  have st: "status crud_test session_ab = NOT_ALL_RECEIVED"
    by code_simp
  have u: "get_unreceived_msgs crud_test session_ab = [msg_a, msg_b]"
    by code_simp
  have e: "get_sensor_messages crud_test \<lparr>rows = [row_other], next_id = 4\<rparr> = []"
    by code_simp
  note z = mp [OF conjunct2 [OF conjunct2 [OF t2]] e]
  show ?thesis
    by (intro conjI) (fact q, fact st, fact u, fact e, fact conjunct1 [OF z],
      fact conjunct2 [OF z])
qed

text \<open>
  C9. A row whose received message is falsy but not \<open>None\<close> (zero, the empty string, an
  empty list or object) and whose received time is set counts as received: taking the row
  out of the table changes neither the status of the sensor nor its unreceived messages,
  and alone it gives \<open>ALL_RECEIVED\<close> and no unreceived message.
\<close>

theorem falsy_payload_is_received:
  assumes "last_receive r = Some p" and "falsy p" and "last_receive_time r = Some t"
  shows "status self (s\<lparr>rows := xs @ r # ys\<rparr>) = status self (s\<lparr>rows := xs @ ys\<rparr>) \<and>
         get_unreceived_msgs self (s\<lparr>rows := xs @ r # ys\<rparr>)
           = get_unreceived_msgs self (s\<lparr>rows := xs @ ys\<rparr>) \<and>
         status self (s\<lparr>rows := [r]\<rparr>) = ALL_RECEIVED \<and>
         get_unreceived_msgs self (s\<lparr>rows := [r]\<rparr>) = []"
  using assms by (simp add: status_def get_unreceived_msgs_def status_rows_append)

theorem falsy_payload_is_received_witness:
  "last_receive row_zero = Some (JNum 0) \<and> falsy (JNum 0) \<and>
   last_receive_time row_zero = Some 100 \<and> name row_zero = sensor_name crud_test \<and>
   status crud_test (session_ab\<lparr>rows := [row_a] @ row_zero # [row_other]\<rparr>)
     = status crud_test (session_ab\<lparr>rows := [row_a] @ [row_other]\<rparr>) \<and>
   status crud_test (session_ab\<lparr>rows := [row_zero]\<rparr>) = ALL_RECEIVED \<and>
   get_unreceived_msgs crud_test (session_ab\<lparr>rows := [row_zero]\<rparr>) = []"
proof -
  have h: "last_receive row_zero = Some (JNum 0)" "falsy (JNum 0)"
    "last_receive_time row_zero = Some 100" "name row_zero = sensor_name crud_test"
    by code_simp+
  from h falsy_payload_is_received [where r = row_zero and p = "JNum 0" and t = 100
      and self = crud_test and s = session_ab and xs = "[row_a]" and ys = "[row_other]"]
  show ?thesis by simp
qed

section \<open>Arrival\<close>

text \<open>
  C5. \<open>update_on_receive\<close> sets the received message and the received time of every row of
  the sensor whose msg equals \<open>match_wanted\<close>, changes no other row and no timeout, and
  changes nothing when no row of the sensor matches. It has no error result.
\<close>

theorem update_on_receive_effect:
  "length (rows (update_on_receive now self m p s)) = length (rows s) \<and>
   next_id (update_on_receive now self m p s) = next_id s \<and>
   (\<forall>i<length (rows s).
      (name (rows s ! i) = sensor_name self \<and> msg (rows s ! i) = m \<longrightarrow>
         rows (update_on_receive now self m p s) ! i
           = (rows s ! i)\<lparr>last_receive_time := Some now, last_receive := p\<rparr>) \<and>
      (\<not> (name (rows s ! i) = sensor_name self \<and> msg (rows s ! i) = m) \<longrightarrow>
         rows (update_on_receive now self m p s) ! i = rows s ! i) \<and>
      timeout (rows (update_on_receive now self m p s) ! i) = timeout (rows s ! i)) \<and>
   ((\<forall>r\<in>set (get_sensor_messages self s). msg r \<noteq> m) \<longrightarrow>
      update_on_receive now self m p s = s)"
proof -
  have "(\<forall>r\<in>set (get_sensor_messages self s). msg r \<noteq> m) \<longrightarrow>
      update_on_receive now self m p s = s"
  proof
    assume a: "\<forall>r\<in>set (get_sensor_messages self s). msg r \<noteq> m"
    have "map (\<lambda>r. if name r = sensor_name self \<and> msg r = m
                  then r\<lparr>last_receive_time := Some now, last_receive := p\<rparr> else r) (rows s)
          = rows s"
      using a by (intro map_idI) (auto simp: get_sensor_messages_def)
    then show "update_on_receive now self m p s = s"
      by (simp add: update_on_receive_def)
  qed
  then show ?thesis by (simp add: update_on_receive_def)
qed

theorem update_on_receive_effect_witness:
  "(0::nat) < length (rows session_ab) \<and>
   name (rows session_ab ! 0) = sensor_name crud_test \<and> msg (rows session_ab ! 0) = msg_a \<and>
   rows (update_on_receive 50 crud_test msg_a (Some (JNum 1)) session_ab) ! 0
     = (rows session_ab ! 0)\<lparr>last_receive_time := Some 50, last_receive := Some (JNum 1)\<rparr> \<and>
   map msg (get_sensor_messages crud_test \<lparr>rows = [row_b, row_other], next_id = 4\<rparr>)
     = [msg_b] \<and>
   update_on_receive 50 crud_test msg_a (Some (JNum 1)) \<lparr>rows = [row_b, row_other], next_id = 4\<rparr>
     = \<lparr>rows = [row_b, row_other], next_id = 4\<rparr>"
proof -
  note t1 = update_on_receive_effect [where now = 50 and self = crud_test and m = msg_a
      and p = "Some (JNum 1)" and s = session_ab]
  note t2 = update_on_receive_effect [where now = 50 and self = crud_test and m = msg_a
      and p = "Some (JNum 1)" and s = "\<lparr>rows = [row_b, row_other], next_id = 4\<rparr>"]
  have l: "(0::nat) < length (rows session_ab)"
    by code_simp
  have h: "name (rows session_ab ! 0) = sensor_name crud_test \<and> msg (rows session_ab ! 0) = msg_a"
    by code_simp
  note a = t1 [THEN conjunct2, THEN conjunct2, THEN conjunct1, rule_format, OF l]
  note b = mp [OF conjunct1 [OF a] h]
  have n: "\<forall>r\<in>set (get_sensor_messages crud_test \<lparr>rows = [row_b, row_other], next_id = 4\<rparr>).
      msg r \<noteq> msg_a"
    by code_simp
  have g: "map msg (get_sensor_messages crud_test \<lparr>rows = [row_b, row_other], next_id = 4\<rparr>)
     = [msg_b]"
    by code_simp
  note c = mp [OF t2 [THEN conjunct2, THEN conjunct2, THEN conjunct2] n]
  show ?thesis
    by (intro conjI) (fact l, fact conjunct1 [OF h], fact conjunct2 [OF h], fact b, fact g,
      fact c)
qed

text \<open>
  C8, as stated: the received time stored is the \<open>now\<close> given by the caller. The
  operation of the source has no such argument and stores the reading of the clock: with
  the clock at 50 and the caller's \<open>now\<close> at 60, it differs from \<open>recordArrival\<close>.
\<close>

theorem update_on_receive_now_counterexample:
  "last_receive_time (rows (update_on_receive 50 crud_test msg_a (Some (JNum 1)) session_ab) ! 0)
     = Some 50 \<and>
   update_on_receive 50 crud_test msg_a (Some (JNum 1)) session_ab
     \<noteq> recordArrival ''test'' msg_a (Some (JNum 1)) 60 session_ab"
  by code_simp

text \<open>
  C8, amended: on every matched row the received time stored is the reading of the clock
  (\<open>TimeUtils().get_now()\<close>) during the call, and \<open>update_on_receive\<close> is the
  \<open>recordArrival\<close> of the spec at the caller's \<open>now\<close> when that \<open>now\<close> is the reading
  of the clock.
\<close>

theorem update_on_receive_clock:
  "(\<forall>i<length (rows s).
      name (rows s ! i) = sensor_name self \<and> msg (rows s ! i) = m \<longrightarrow>
        last_receive_time (rows (update_on_receive now self m p s) ! i) = Some now) \<and>
   update_on_receive now self m p s = recordArrival (sensor_name self) m p now s"
  by (simp add: update_on_receive_def recordArrival_def)

theorem update_on_receive_clock_witness:
  "(0::nat) < length (rows session_ab) \<and>
   name (rows session_ab ! 0) = sensor_name crud_test \<and> msg (rows session_ab ! 0) = msg_a \<and>
   last_receive_time (rows (update_on_receive 50 crud_test msg_a (Some (JNum 1)) session_ab) ! 0)
     = Some 50 \<and>
   update_on_receive 50 crud_test msg_a (Some (JNum 1)) session_ab
     = recordArrival (sensor_name crud_test) msg_a (Some (JNum 1)) 50 session_ab"
proof -
  have h: "(0::nat) < length (rows session_ab)"
    "name (rows session_ab ! 0) = sensor_name crud_test" "msg (rows session_ab ! 0) = msg_a"
    by code_simp+
  from h update_on_receive_clock [where now = 50 and self = crud_test and m = msg_a
      and p = "Some (JNum 1)" and s = session_ab]
  show ?thesis by blast
qed

section \<open>Expiry\<close>

text \<open>
  C3, as stated: every record reset by \<open>reset_timeout\<close> gets a deadline strictly greater
  than the time used to recompute it. With the policy of the spec it fails in the last second
  of a day: at 23:59:59 of 1970-01-02 (second 172799) the expired daily record gets the
  end of that day, 172799, as its deadline, which is the recompute time itself.
\<close>

theorem reset_timeout_expired_counterexample:
  "reset_timeout 172799 timeout_policy crud_test (Some 172799) session_stale
     = Inr \<lparr>rows = [row_a\<lparr>timeout := 172799\<rparr>, row_b, row_other], next_id = 4\<rparr> \<and>
   timeout row_stale < 172799 \<and>
   \<not> (172799 < timeout (row_a\<lparr>timeout := 172799\<rparr>))"
  by code_simp

text \<open>
  C3, amended, with the policy of the spec. When every expired record of the sensor is
  daily or monthly, \<open>reset_timeout\<close> returns. When it returns, every record that is not
  of the sensor or whose deadline is not below the base time is unchanged, and every record
  of the sensor whose deadline is below the base time has both received fields cleared and
  the deadline the policy computes at the clock reading, which is greater than or equal to
  that reading; all its other fields are unchanged.
\<close>

theorem reset_timeout_expired:
  "((\<forall>r\<in>set (get_sensor_messages self s).
        timeout r < (case base_time of None \<Rightarrow> now | Some b \<Rightarrow> b) \<longrightarrow>
        fmlookup (msg r) ''frequency'' = Some (JStr ''D'') \<or>
        fmlookup (msg r) ''frequency'' = Some (JStr ''M''))
      \<longrightarrow> (\<exists>s'. reset_timeout now timeout_policy self base_time s = Inr s')) \<and>
   (reset_timeout now timeout_policy self base_time s = Inr s' \<longrightarrow>
      length (rows s') = length (rows s) \<and>
      (\<forall>i<length (rows s).
         (name (rows s ! i) = sensor_name self \<and>
          timeout (rows s ! i) < (case base_time of None \<Rightarrow> now | Some b \<Rightarrow> b) \<longrightarrow>
            rows s' ! i = (rows s ! i)\<lparr>last_receive_time := None, last_receive := None,
                                       timeout := timeout (rows s' ! i)\<rparr> \<and>
            timeout_policy now (EventMessageCRUD.source_type self) (msg (rows s ! i))
              = Inr (timeout (rows s' ! i)) \<and>
            now \<le> timeout (rows s' ! i)) \<and>
         (\<not> (name (rows s ! i) = sensor_name self \<and>
             timeout (rows s ! i) < (case base_time of None \<Rightarrow> now | Some b \<Rightarrow> b)) \<longrightarrow>
            rows s' ! i = rows s ! i)))"
  (is "(?wf \<longrightarrow> ?tot) \<and> (?ok \<longrightarrow> ?len \<and> ?rows)")
proof (intro conjI impI)
  let ?base = "case base_time of None \<Rightarrow> now | Some b \<Rightarrow> b"
  assume wf: ?wf
  have "\<forall>r\<in>set (rows s). name r = sensor_name self \<and> timeout r < ?base
       \<longrightarrow> (\<exists>t. get_timeout now timeout_policy self (msg r) = Inr t)"
    using wf timeout_policy_total
    by (auto simp: get_sensor_messages_def get_timeout_def)
  from reset_rows_total [OF this] obtain rs'
    where "reset_rows now timeout_policy self ?base (rows s) = Inr rs'" by blast
  then show ?tot by (simp add: reset_timeout_def)
next
  let ?base = "case base_time of None \<Rightarrow> now | Some b \<Rightarrow> b"
  assume ok: ?ok
  note rr = reset_timeout_rows [OF ok, THEN conjunct1]
  show ?len
  proof (cases "rows s")
    case Nil
    with rr show ?thesis by simp
  next
    case (Cons a list)
    then have "0 < length (rows s)" by simp
    from reset_rows_nth(1) [OF rr this] show ?thesis .
  qed
  show ?rows
  proof (intro allI impI conjI)
    fix i
    assume i: "i < length (rows s)"
      and sel: "name (rows s ! i) = sensor_name self \<and> timeout (rows s ! i) < ?base"
    from reset_rows_nth(2) [OF rr i sel] obtain t
      where t: "get_timeout now timeout_policy self (msg (rows s ! i)) = Inr t"
        and eq: "rows s' ! i
          = (rows s ! i)\<lparr>last_receive_time := None, last_receive := None, timeout := t\<rparr>"
      by blast
    have tt: "timeout (rows s' ! i) = t" by (simp add: eq)
    show "rows s' ! i = (rows s ! i)\<lparr>last_receive_time := None, last_receive := None,
                                       timeout := timeout (rows s' ! i)\<rparr>"
      unfolding tt by (rule eq)
    show "timeout_policy now (EventMessageCRUD.source_type self) (msg (rows s ! i))
              = Inr (timeout (rows s' ! i))"
      unfolding tt using t by (simp add: get_timeout_def)
    show "now \<le> timeout (rows s' ! i)"
      unfolding tt using t by (simp add: get_timeout_def timeout_policy_ge)
  next
    fix i
    assume i: "i < length (rows s)"
      and nsel: "\<not> (name (rows s ! i) = sensor_name self \<and> timeout (rows s ! i) < ?base)"
    from reset_rows_nth(3) [OF rr i nsel] show "rows s' ! i = rows s ! i" .
  qed
qed

theorem reset_timeout_expired_witness:
  "(\<exists>s'. reset_timeout 100000 timeout_policy crud_test (Some 100000) session_stale = Inr s') \<and>
   reset_timeout 100000 timeout_policy crud_test (Some 100000) session_stale
     = Inr \<lparr>rows = [row_a\<lparr>timeout := 172799\<rparr>, row_b, row_other], next_id = 4\<rparr> \<and>
   name (rows session_stale ! 0) = sensor_name crud_test \<and>
   timeout (rows session_stale ! 0) < 100000 \<and>
   last_receive (rows session_stale ! 0) = Some (JNum 1) \<and>
   rows \<lparr>rows = [row_a\<lparr>timeout := 172799\<rparr>, row_b, row_other], next_id = 4\<rparr> ! 0
     = (rows session_stale ! 0)\<lparr>last_receive_time := None, last_receive := None,
          timeout := timeout (rows \<lparr>rows = [row_a\<lparr>timeout := 172799\<rparr>, row_b, row_other],
                                    next_id = 4\<rparr> ! 0)\<rparr> \<and>
   100000 \<le> timeout (rows \<lparr>rows = [row_a\<lparr>timeout := 172799\<rparr>, row_b, row_other],
                              next_id = 4\<rparr> ! 0) \<and>
   rows \<lparr>rows = [row_a\<lparr>timeout := 172799\<rparr>, row_b, row_other], next_id = 4\<rparr> ! 1
     = rows session_stale ! 1"
proof -
  let ?s' = "\<lparr>rows = [row_a\<lparr>timeout := 172799\<rparr>, row_b, row_other], next_id = 4\<rparr>"
  note t = reset_timeout_expired [where now = 100000 and self = crud_test
      and base_time = "Some 100000" and s = session_stale and s' = ?s']
  have wf: "\<forall>r\<in>set (get_sensor_messages crud_test session_stale).
        timeout r < (case Some 100000 of None \<Rightarrow> 100000 | Some b \<Rightarrow> b) \<longrightarrow>
        fmlookup (msg r) ''frequency'' = Some (JStr ''D'') \<or>
        fmlookup (msg r) ''frequency'' = Some (JStr ''M'')"
    by code_simp
  note tot = mp [OF conjunct1 [OF t] wf]
  have ok: "reset_timeout 100000 timeout_policy crud_test (Some 100000) session_stale = Inr ?s'"
    by code_simp
  note eff = mp [OF conjunct2 [OF t] ok, THEN conjunct2, rule_format]
  have i0: "0 < length (rows session_stale)" and i1: "1 < length (rows session_stale)"
    by code_simp+
  have sel: "name (rows session_stale ! 0) = sensor_name crud_test \<and>
          timeout (rows session_stale ! 0) < (case Some 100000 of None \<Rightarrow> 100000 | Some b \<Rightarrow> b)"
    by code_simp
  have nsel: "\<not> (name (rows session_stale ! 1) = sensor_name crud_test \<and>
          timeout (rows session_stale ! 1) < (case Some 100000 of None \<Rightarrow> 100000 | Some b \<Rightarrow> b))"
    by code_simp
  have lr: "last_receive (rows session_stale ! 0) = Some (JNum 1)"
    by code_simp
  note a = eff [OF i0, THEN conjunct1, THEN mp, OF sel]
  note b = eff [OF i1, THEN conjunct2, THEN mp, OF nsel]
  from sel have sel': "name (rows session_stale ! 0) = sensor_name crud_test"
    "timeout (rows session_stale ! 0) < 100000" by simp_all
  show ?thesis
    by (intro conjI) (fact tot, fact ok, fact sel'(1), fact sel'(2), fact lr,
      fact conjunct1 [OF a], fact conjunct2 [OF conjunct2 [OF a]], fact b)
qed

text \<open>
  C6. In \<open>reset_timeout\<close> the records are selected with the base time given by the
  caller, \<open>timeout < base_time\<close>, and the new deadline is \<open>get_timeout(record.msg)\<close>,
  which is given no time and reads the clock; without a base time the clock is the base
  time. The two can differ: with the policy of the spec, a reset with the clock at second
  86405 and the caller's time at 172805 differs from the reset with both at 172805.
\<close>

theorem reset_timeout_uses_clock:
  "(reset_timeout now pf self (Some base) s = Inr s' \<longrightarrow>
      length (rows s') = length (rows s) \<and>
      (\<forall>i<length (rows s).
         (name (rows s ! i) = sensor_name self \<and> timeout (rows s ! i) < base \<longrightarrow>
            get_timeout now pf self (msg (rows s ! i)) = Inr (timeout (rows s' ! i))) \<and>
         (\<not> (name (rows s ! i) = sensor_name self \<and> timeout (rows s ! i) < base) \<longrightarrow>
            rows s' ! i = rows s ! i))) \<and>
   reset_timeout now pf self None s = reset_timeout now pf self (Some now) s \<and>
   (\<exists>clock caller_now s1 s2.
      reset_timeout clock timeout_policy crud_test (Some caller_now) session_stale = Inr s1 \<and>
      reset_timeout caller_now timeout_policy crud_test (Some caller_now) session_stale = Inr s2 \<and>
      s1 \<noteq> s2)"
  (is "(?ok \<longrightarrow> ?len \<and> ?rows) \<and> ?none \<and> ?differ")
proof (intro conjI impI)
  assume ok: ?ok
  from reset_timeout_rows [OF ok]
  have rr: "reset_rows now pf self base (rows s) = Inr (rows s')" by simp
  show ?len
  proof (cases "rows s")
    case Nil
    with rr show ?thesis by simp
  next
    case (Cons a list)
    then have "0 < length (rows s)" by simp
    from reset_rows_nth(1) [OF rr this] show ?thesis .
  qed
  show ?rows
  proof (intro allI impI conjI)
    fix i
    assume i: "i < length (rows s)"
      and sel: "name (rows s ! i) = sensor_name self \<and> timeout (rows s ! i) < base"
    from reset_rows_nth(2) [OF rr i sel] obtain t
      where t: "get_timeout now pf self (msg (rows s ! i)) = Inr t"
        and eq: "rows s' ! i
          = (rows s ! i)\<lparr>last_receive_time := None, last_receive := None, timeout := t\<rparr>"
      by blast
    have tt: "timeout (rows s' ! i) = t" by (simp add: eq)
    show "get_timeout now pf self (msg (rows s ! i)) = Inr (timeout (rows s' ! i))"
      unfolding tt by (rule t)
  next
    fix i
    assume i: "i < length (rows s)"
      and nsel: "\<not> (name (rows s ! i) = sensor_name self \<and> timeout (rows s ! i) < base)"
    from reset_rows_nth(3) [OF rr i nsel] show "rows s' ! i = rows s ! i" .
  qed
next
  show ?none by (simp add: reset_timeout_def)
next
  have a: "reset_timeout 86405 timeout_policy crud_test (Some 172805) session_stale
     = Inr \<lparr>rows = [row_a\<lparr>timeout := 172799\<rparr>, row_b, row_other], next_id = 4\<rparr>"
    by code_simp
  have b: "reset_timeout 172805 timeout_policy crud_test (Some 172805) session_stale
     = Inr \<lparr>rows = [row_a\<lparr>timeout := 259199\<rparr>, row_b, row_other], next_id = 4\<rparr>"
    by code_simp
  have c: "\<lparr>rows = [row_a\<lparr>timeout := 172799\<rparr>, row_b, row_other], next_id = 4\<rparr>
     \<noteq> \<lparr>rows = [row_a\<lparr>timeout := 259199\<rparr>, row_b, row_other], next_id = 4\<rparr>"
    by code_simp
  show ?differ
    by (intro exI conjI) (fact a, fact b, fact c)
qed

theorem reset_timeout_uses_clock_witness:
  "reset_timeout 86405 timeout_policy crud_test (Some 172805) session_stale
     = Inr \<lparr>rows = [row_a\<lparr>timeout := 172799\<rparr>, row_b, row_other], next_id = 4\<rparr> \<and>
   name (rows session_stale ! 0) = sensor_name crud_test \<and>
   timeout (rows session_stale ! 0) < 172805 \<and>
   get_timeout 86405 timeout_policy crud_test (msg (rows session_stale ! 0))
     = Inr (timeout (rows \<lparr>rows = [row_a\<lparr>timeout := 172799\<rparr>, row_b, row_other],
                           next_id = 4\<rparr> ! 0)) \<and>
   get_timeout 172805 timeout_policy crud_test (msg (rows session_stale ! 0)) = Inr 259199 \<and>
   timeout (rows \<lparr>rows = [row_a\<lparr>timeout := 172799\<rparr>, row_b, row_other], next_id = 4\<rparr> ! 0)
     = 172799 \<and>
   rows \<lparr>rows = [row_a\<lparr>timeout := 172799\<rparr>, row_b, row_other], next_id = 4\<rparr> ! 1
     = rows session_stale ! 1"
proof -
  let ?s' = "\<lparr>rows = [row_a\<lparr>timeout := 172799\<rparr>, row_b, row_other], next_id = 4\<rparr>"
  note t = reset_timeout_uses_clock [where now = 86405 and pf = timeout_policy
      and self = crud_test and base = 172805 and s = session_stale and s' = ?s']
  have ok: "reset_timeout 86405 timeout_policy crud_test (Some 172805) session_stale = Inr ?s'"
    by code_simp
  note eff = mp [OF conjunct1 [OF t] ok, THEN conjunct2, rule_format]
  have i0: "0 < length (rows session_stale)" and i1: "1 < length (rows session_stale)"
    by code_simp+
  have sel: "name (rows session_stale ! 0) = sensor_name crud_test \<and>
          timeout (rows session_stale ! 0) < 172805"
    by code_simp
  have nsel: "\<not> (name (rows session_stale ! 1) = sensor_name crud_test \<and>
          timeout (rows session_stale ! 1) < 172805)"
    by code_simp
  have other: "get_timeout 172805 timeout_policy crud_test (msg (rows session_stale ! 0))
     = Inr 259199"
    by code_simp
  have val: "timeout (rows ?s' ! 0) = 172799"
    by code_simp
  note a = eff [OF i0, THEN conjunct1, THEN mp, OF sel]
  note b = eff [OF i1, THEN conjunct2, THEN mp, OF nsel]
  show ?thesis
    by (intro conjI) (fact ok, fact conjunct1 [OF sel], fact conjunct2 [OF sel], fact a,
      fact other, fact val, fact b)
qed

section \<open>Rows of other sensors\<close>

text \<open>
  C10. Every mutating operation of an instance bound to a sensor (\<open>initialize\<close>,
  \<open>update_msgs\<close>, \<open>reset_timeout\<close>, \<open>update_on_receive\<close>, \<open>delete\<close>) leaves the rows
  whose name differs from the sensor's name as they were, in the same order.
\<close>

theorem other_sensors_unchanged:
  "(initialize now pf self msg_list dt s = Inr s1 \<longrightarrow>
      filter (\<lambda>r. name r \<noteq> sensor_name self) (rows s1)
        = filter (\<lambda>r. name r \<noteq> sensor_name self) (rows s)) \<and>
   (update_msgs now pf self msg_list s = Inr s2 \<longrightarrow>
      filter (\<lambda>r. name r \<noteq> sensor_name self) (rows s2)
        = filter (\<lambda>r. name r \<noteq> sensor_name self) (rows s)) \<and>
   (reset_timeout now pf self base_time s = Inr s3 \<longrightarrow>
      filter (\<lambda>r. name r \<noteq> sensor_name self) (rows s3)
        = filter (\<lambda>r. name r \<noteq> sensor_name self) (rows s)) \<and>
   filter (\<lambda>r. name r \<noteq> sensor_name self) (rows (update_on_receive now self match_wanted receive_msg s))
     = filter (\<lambda>r. name r \<noteq> sensor_name self) (rows s) \<and>
   filter (\<lambda>r. name r \<noteq> sensor_name self) (rows (delete self s))
     = filter (\<lambda>r. name r \<noteq> sensor_name self) (rows s)"
  by (simp add: initialize_others update_msgs_others reset_timeout_others delete_def
        update_on_receive_def receive_rows_others)

theorem other_sensors_unchanged_witness:
  "initialize 5 timeout_policy crud_test [msg_a] None session_ab
     = Inr \<lparr>rows = [row_a, row_other], next_id = 4\<rparr> \<and>
   update_msgs 5 timeout_policy crud_test [msg_a] session_ab
     = Inr \<lparr>rows = [row_a, row_other], next_id = 4\<rparr> \<and>
   reset_timeout 5 timeout_policy crud_test (Some 86400) session_ab
     = Inr \<lparr>rows = [row_a, row_b, row_other], next_id = 4\<rparr> \<and>
   filter (\<lambda>r. name r \<noteq> sensor_name crud_test) (rows \<lparr>rows = [row_a, row_other], next_id = 4\<rparr>)
     = filter (\<lambda>r. name r \<noteq> sensor_name crud_test) (rows session_ab) \<and>
   filter (\<lambda>r. name r \<noteq> sensor_name crud_test) (rows session_ab) = [row_other]"
proof -
  have i: "initialize 5 timeout_policy crud_test [msg_a] None session_ab
     = Inr \<lparr>rows = [row_a, row_other], next_id = 4\<rparr>"
    by code_simp
  have u: "update_msgs 5 timeout_policy crud_test [msg_a] session_ab
     = Inr \<lparr>rows = [row_a, row_other], next_id = 4\<rparr>"
    by code_simp
  have r: "reset_timeout 5 timeout_policy crud_test (Some 86400) session_ab
     = Inr \<lparr>rows = [row_a, row_b, row_other], next_id = 4\<rparr>"
    by code_simp
  have o: "filter (\<lambda>r. name r \<noteq> sensor_name crud_test) (rows session_ab) = [row_other]"
    by code_simp
  from i u r o
    other_sensors_unchanged [where now = 5 and pf = timeout_policy and self = crud_test
      and msg_list = "[msg_a]" and dt = None and s = session_ab
      and ?s1.0 = "\<lparr>rows = [row_a, row_other], next_id = 4\<rparr>"
      and ?s2.0 = "\<lparr>rows = [row_a, row_other], next_id = 4\<rparr>"]
  show ?thesis by blast
qed

end
